theory Spec2Isabelle
  imports Complex_Main
begin

section \<open>Domain errors\<close>

text \<open>
  \<^verbatim>\<open>internal/domain/shared/entities/domain_error.go\<close>: a \<^verbatim>\<open>DomainError\<close> is a struct
  with one field, \<^verbatim>\<open>Message\<close>. The sentinels are package variables holding such structs.
  Go compares two \<^verbatim>\<open>error\<close> interface values by dynamic type and value, so two domain
  errors are equal exactly when their messages are; an error of any other dynamic type
  (a database driver's, for instance) is \<open>ForeignError\<close>, told apart by a tag.
  A \<^verbatim>\<open>nil\<close> error is \<open>None\<close> in \<open>error option\<close>.
\<close>

datatype error = DomainError (Message: string) | ForeignError string

definition ErrInvalidUserID :: error where
  "ErrInvalidUserID = DomainError ''invalid user ID''"

definition ErrEmptyOrder :: error where
  "ErrEmptyOrder = DomainError ''order must contain at least one item''"

definition ErrOrderNotModifiable :: error where
  "ErrOrderNotModifiable = DomainError ''order cannot be modified in current status''"

definition ErrOrderItemNotFound :: error where
  "ErrOrderItemNotFound = DomainError ''order item not found''"

definition ErrInvalidOrderStatusTransition :: error where
  "ErrInvalidOrderStatusTransition = DomainError ''invalid order status transition''"

definition ErrCannotCancelDeliveredOrder :: error where
  "ErrCannotCancelDeliveredOrder = DomainError ''cannot cancel delivered order''"

definition ErrOrderNotFound :: error where
  "ErrOrderNotFound = DomainError ''order not found''"

definition ErrInvalidEmail :: error where
  "ErrInvalidEmail = DomainError ''email is required''"

definition ErrInvalidName :: error where
  "ErrInvalidName = DomainError ''name is required''"

definition ErrInvalidPassword :: error where
  "ErrInvalidPassword = DomainError ''password is required''"

definition ErrUserNotFound :: error where
  "ErrUserNotFound = DomainError ''user not found''"

definition ErrEmailExists :: error where
  "ErrEmailExists = DomainError ''user with this email already exists''"

section \<open>The order aggregate\<close>

text \<open>
  \<^verbatim>\<open>internal/domain/order/entities/order.go\<close>.

  \<^verbatim>\<open>OrderStatus\<close> is a named string type with five constants; a struct literal can hold
  any other string, so the status stays a string here and the theorems below cover
  every value of the field.

  \<^verbatim>\<open>uint\<close> identifiers are compared with zero and with each other only and \<^verbatim>\<open>Quantity\<close>
  (an \<^verbatim>\<open>int\<close>) is stored and converted only, so no arithmetic can wrap: they are
  \<open>nat\<close> and \<open>int\<close>. A \<^verbatim>\<open>time.Time\<close> is a clock reading, \<open>nat\<close>; every call of
  \<^verbatim>\<open>time.Now()\<close> is a parameter of the operation that makes it, in the order of the
  calls.
\<close>

type_synonym OrderStatus = string
type_synonym Time = nat

definition OrderStatusPending :: OrderStatus where
  "OrderStatusPending = ''pending''"

definition OrderStatusConfirmed :: OrderStatus where
  "OrderStatusConfirmed = ''confirmed''"

definition OrderStatusShipped :: OrderStatus where
  "OrderStatusShipped = ''shipped''"

definition OrderStatusDelivered :: OrderStatus where
  "OrderStatusDelivered = ''delivered''"

definition OrderStatusCancelled :: OrderStatus where
  "OrderStatusCancelled = ''cancelled''"

text \<open>
  \<^verbatim>\<open>float64\<close>. \<^verbatim>\<open>Price\<close> and \<^verbatim>\<open>TotalAmount\<close> are IEEE 754 doubles. Their arithmetic
  is not that of the reals (it rounds, and addition is not associative), so the type of
  these values is a parameter \<open>'f\<close> and the operations the code applies to them are the
  fields of \<open>float64_ops\<close>: the constant \<^verbatim>\<open>0.0\<close>, \<^verbatim>\<open>+\<close>, \<^verbatim>\<open>*\<close>, the conversion
  \<^verbatim>\<open>float64(n)\<close> of an \<^verbatim>\<open>int\<close>, and the comparison \<^verbatim>\<open><=\<close> (which the code never
  applies; it is there to state the bound on prices). A theorem that holds for every
  \<open>float64_ops\<close> holds for the machine's. Equality of two such values is identity of
  the value held, not the IEEE comparison \<^verbatim>\<open>==\<close> (which a NaN fails against itself).
\<close>

record 'f float64_ops =
  f_zero :: 'f
  f_add :: "'f \<Rightarrow> 'f \<Rightarrow> 'f"
  f_mul :: "'f \<Rightarrow> 'f \<Rightarrow> 'f"
  f_of_int :: "int \<Rightarrow> 'f"
  f_le :: "'f \<Rightarrow> 'f \<Rightarrow> bool"

text \<open>
  Exact arithmetic, for evaluating the operations at concrete inputs: on small integers
  and their products and sums the doubles compute exactly what the reals do.
\<close>

definition exact_ops :: "real float64_ops" where
  "exact_ops = \<lparr>f_zero = 0, f_add = (+), f_mul = (*), f_of_int = of_int, f_le = (\<le>)\<rparr>"

record 'f OrderItem =
  Item_ID :: nat
  Item_OrderID :: nat
  ProductID :: nat
  Quantity :: int
  Price :: 'f
  Item_CreatedAt :: Time

text \<open>
  \<^verbatim>\<open>Items\<close> is a slice of pointers to items. The order owns its items: the list below
  is the sequence of the items pointed to, none of the pointers \<^verbatim>\<open>nil\<close> and none of them
  or of the slice's cells written to by anyone but the order's own methods.
\<close>

record 'f Order =
  ID :: nat
  UserID :: nat
  Status :: OrderStatus
  TotalAmount :: 'f
  Items :: "'f OrderItem list"
  CreatedAt :: Time
  UpdatedAt :: Time
  DeletedAt :: "Time option"

text \<open>The loop of \<^verbatim>\<open>calculateTotal\<close>: \<^verbatim>\<open>total\<close> starts at \<^verbatim>\<open>0.0\<close> and takes each item in order.\<close>

definition sumItems :: "'f float64_ops \<Rightarrow> 'f OrderItem list \<Rightarrow> 'f" where
  "sumItems fl items =
     foldl (\<lambda>total item. f_add fl total (f_mul fl (Price item) (f_of_int fl (Quantity item))))
       (f_zero fl) items"

definition calculateTotal :: "'f float64_ops \<Rightarrow> 'f Order \<Rightarrow> 'f Order" where
  "calculateTotal fl ord = ord\<lparr>TotalAmount := sumItems fl (Items ord)\<rparr>"

text \<open>
  \<^verbatim>\<open>NewOrder\<close> returns \<^verbatim>\<open>(nil, err)\<close> or \<^verbatim>\<open>(order, nil)\<close>: a sum. The fields the struct
  literal leaves out hold their zero values. \<open>now1\<close> and \<open>now2\<close> are the two clock
  readings.
\<close>

definition NewOrder ::
  "'f float64_ops \<Rightarrow> nat \<Rightarrow> 'f OrderItem list \<Rightarrow> Time \<Rightarrow> Time \<Rightarrow> error + 'f Order" where
  "NewOrder fl userID items now1 now2 =
     (if userID = 0 then Inl ErrInvalidUserID
      else if length items = 0 then Inl ErrEmptyOrder
      else Inr (calculateTotal fl
             \<lparr>ID = 0, UserID = userID, Status = OrderStatusPending, TotalAmount = f_zero fl,
              Items = items, CreatedAt = now1, UpdatedAt = now2, DeletedAt = None\<rparr>))"

text \<open>
  A method with a pointer receiver that returns an \<^verbatim>\<open>error\<close> is a function from the
  order to the error returned (\<open>None\<close> for \<^verbatim>\<open>nil\<close>) and the order as the call leaves it.
\<close>

definition AddItem ::
  "'f float64_ops \<Rightarrow> 'f Order \<Rightarrow> nat \<Rightarrow> int \<Rightarrow> 'f \<Rightarrow> Time \<Rightarrow> Time \<Rightarrow> error option \<times> 'f Order" where
  "AddItem fl ord productID quantity price now1 now2 =
     (if Status ord \<noteq> OrderStatusPending then (Some ErrOrderNotModifiable, ord)
      else
        let item = \<lparr>Item_ID = 0, Item_OrderID = 0, ProductID = productID,
                    Quantity = quantity, Price = price, Item_CreatedAt = now1\<rparr>;
            ord1 = ord\<lparr>Items := Items ord @ [item]\<rparr>;
            ord2 = calculateTotal fl ord1
        in (None, ord2\<lparr>UpdatedAt := now2\<rparr>))"

text \<open>
  The loop of \<^verbatim>\<open>RemoveItem\<close>: the index of the first item whose \<^verbatim>\<open>ID\<close> is \<open>itemID\<close>,
  counting from \<open>i\<close>, or \<open>None\<close> when the loop runs to its end.
\<close>

fun findItem :: "nat \<Rightarrow> 'f OrderItem list \<Rightarrow> nat \<Rightarrow> nat option" where
  "findItem itemID [] i = None"
| "findItem itemID (item # rest) i =
     (if Item_ID item = itemID then Some i else findItem itemID rest (Suc i))"

definition RemoveItem ::
  "'f float64_ops \<Rightarrow> 'f Order \<Rightarrow> nat \<Rightarrow> Time \<Rightarrow> error option \<times> 'f Order" where
  "RemoveItem fl ord itemID now =
     (if Status ord \<noteq> OrderStatusPending then (Some ErrOrderNotModifiable, ord)
      else case findItem itemID (Items ord) 0 of
        Some i \<Rightarrow>
          let ord1 = ord\<lparr>Items := take i (Items ord) @ drop (i + 1) (Items ord)\<rparr>;
              ord2 = calculateTotal fl ord1
          in (None, ord2\<lparr>UpdatedAt := now\<rparr>)
      | None \<Rightarrow> (Some ErrOrderItemNotFound, ord))"

definition Confirm :: "'f Order \<Rightarrow> Time \<Rightarrow> error option \<times> 'f Order" where
  "Confirm ord now =
     (if Status ord \<noteq> OrderStatusPending then (Some ErrInvalidOrderStatusTransition, ord)
      else (None, ord\<lparr>Status := OrderStatusConfirmed, UpdatedAt := now\<rparr>))"

definition Ship :: "'f Order \<Rightarrow> Time \<Rightarrow> error option \<times> 'f Order" where
  "Ship ord now =
     (if Status ord \<noteq> OrderStatusConfirmed then (Some ErrInvalidOrderStatusTransition, ord)
      else (None, ord\<lparr>Status := OrderStatusShipped, UpdatedAt := now\<rparr>))"

definition Deliver :: "'f Order \<Rightarrow> Time \<Rightarrow> error option \<times> 'f Order" where
  "Deliver ord now =
     (if Status ord \<noteq> OrderStatusShipped then (Some ErrInvalidOrderStatusTransition, ord)
      else (None, ord\<lparr>Status := OrderStatusDelivered, UpdatedAt := now\<rparr>))"

definition Cancel :: "'f Order \<Rightarrow> Time \<Rightarrow> error option \<times> 'f Order" where
  "Cancel ord now =
     (if Status ord = OrderStatusDelivered then (Some ErrCannotCancelDeliveredOrder, ord)
      else (None, ord\<lparr>Status := OrderStatusCancelled, UpdatedAt := now\<rparr>))"

text \<open>
  A call of one of the six methods, and a sequence of calls on one order: each call
  acts on the order as the call before left it, whether that call failed or not.
\<close>

datatype 'f call =
    CallAddItem nat int 'f Time Time
  | CallRemoveItem nat Time
  | CallConfirm Time
  | CallShip Time
  | CallDeliver Time
  | CallCancel Time

fun perform :: "'f float64_ops \<Rightarrow> 'f Order \<Rightarrow> 'f call \<Rightarrow> error option \<times> 'f Order" where
  "perform fl ord (CallAddItem productID quantity price now1 now2) =
     AddItem fl ord productID quantity price now1 now2"
| "perform fl ord (CallRemoveItem itemID now) = RemoveItem fl ord itemID now"
| "perform fl ord (CallConfirm now) = Confirm ord now"
| "perform fl ord (CallShip now) = Ship ord now"
| "perform fl ord (CallDeliver now) = Deliver ord now"
| "perform fl ord (CallCancel now) = Cancel ord now"

fun performAll :: "'f float64_ops \<Rightarrow> 'f Order \<Rightarrow> 'f call list \<Rightarrow> 'f Order" where
  "performAll fl ord [] = ord"
| "performAll fl ord (c # cs) = performAll fl (snd (perform fl ord c)) cs"

text \<open>
  A run of \<^verbatim>\<open>AddItem\<close> calls that all succeed, each given by its arguments and its two
  clock readings: the order they leave, or \<open>None\<close> when one of them fails.
\<close>

fun addItems ::
  "'f float64_ops \<Rightarrow> 'f Order \<Rightarrow> (nat \<times> int \<times> 'f \<times> Time \<times> Time) list \<Rightarrow> 'f Order option" where
  "addItems fl ord [] = Some ord"
| "addItems fl ord ((productID, quantity, price, now1, now2) # rest) =
     (case AddItem fl ord productID quantity price now1 now2 of
        (None, ord') \<Rightarrow> addItems fl ord' rest
      | (Some e, ord') \<Rightarrow> None)"

text \<open>The bounds the data model gives for an item: \<open>quantity > 0\<close> and \<open>price \<ge> 0\<close>.\<close>

definition itemValid :: "'f float64_ops \<Rightarrow> 'f OrderItem \<Rightarrow> bool" where
  "itemValid fl item \<longleftrightarrow> 0 < Quantity item \<and> f_le fl (f_zero fl) (Price item)"

text \<open>
  A sample order holding two items, with its total in place, in any status, and a
  sample sequence of calls.
\<close>

definition sampleItems :: "real OrderItem list" where
  "sampleItems =
     [\<lparr>Item_ID = 1, Item_OrderID = 0, ProductID = 7, Quantity = 2, Price = 10, Item_CreatedAt = 0\<rparr>,
      \<lparr>Item_ID = 2, Item_OrderID = 0, ProductID = 9, Quantity = 1, Price = 5, Item_CreatedAt = 0\<rparr>]"

definition sampleOrder :: "OrderStatus \<Rightarrow> real Order" where
  "sampleOrder st =
     \<lparr>ID = 0, UserID = 42, Status = st, TotalAmount = 25, Items = sampleItems,
      CreatedAt = 100, UpdatedAt = 100, DeletedAt = None\<rparr>"

definition sampleCalls :: "real call list" where
  "sampleCalls =
     [CallAddItem 3 4 2 105 106, CallRemoveItem 1 110, CallShip 120, CallRemoveItem 77 130,
      CallConfirm 140, CallAddItem 1 1 1 150 151, CallCancel 160]"

section \<open>The user aggregate\<close>

text \<open>
  The \<^verbatim>\<open>User\<close> entity and its factory (package \<^verbatim>\<open>entities\<close> of the user domain).
\<close>

record User =
  User_ID :: nat
  Email :: string
  Name :: string
  Password :: string
  User_CreatedAt :: Time
  User_UpdatedAt :: Time
  User_DeletedAt :: "Time option"

definition NewUser :: "string \<Rightarrow> string \<Rightarrow> string \<Rightarrow> Time \<Rightarrow> Time \<Rightarrow> error + User" where
  "NewUser email name password now1 now2 =
     (if email = '''' then Inl ErrInvalidEmail
      else if name = '''' then Inl ErrInvalidName
      else if password = '''' then Inl ErrInvalidPassword
      else Inr \<lparr>User_ID = 0, Email = email, Name = name, Password = password,
                User_CreatedAt = now1, User_UpdatedAt = now2, User_DeletedAt = None\<rparr>)"

text \<open>
  \<^verbatim>\<open>internal/domain/user/repositories/user_repository.go\<close>: the repository is an interface,
  and the use cases hold one without knowing its implementation. Here it is a record of
  the three methods the use cases below call, over a store of any type \<open>'s\<close>: a method
  takes the store and returns its results and the store as it leaves it. \<^verbatim>\<open>GetByID\<close> and
  \<^verbatim>\<open>GetByEmail\<close> return a pointer (\<open>None\<close> for \<^verbatim>\<open>nil\<close>) and an error; \<^verbatim>\<open>Create\<close> is handed a
  pointer to the user, which it may write to (the implementations set the \<^verbatim>\<open>ID\<close>), so
  it returns the user as it leaves it beside its error.
\<close>

record 's UserRepository =
  Create :: "User \<Rightarrow> 's \<Rightarrow> (error option \<times> User) \<times> 's"
  GetByID :: "nat \<Rightarrow> 's \<Rightarrow> (User option \<times> error option) \<times> 's"
  GetByEmail :: "string \<Rightarrow> 's \<Rightarrow> (User option \<times> error option) \<times> 's"

text \<open>
  \<^verbatim>\<open>internal/adapters/user/usecases/user_usecase_impl.go\<close>, \<^verbatim>\<open>CreateUser\<close>. The result is
  the pair the method returns and the store afterwards.
\<close>

definition CreateUser ::
  "'s UserRepository \<Rightarrow> string \<Rightarrow> string \<Rightarrow> string \<Rightarrow> Time \<Rightarrow> Time \<Rightarrow> 's
     \<Rightarrow> (User option \<times> error option) \<times> 's" where
  "CreateUser repo email name password now1 now2 s =
     (if email = '''' \<or> name = '''' \<or> password = '''' then ((None, Some ErrInvalidEmail), s)
      else case GetByEmail repo email s of ((found, err), s1) \<Rightarrow>
        if err = None then ((None, Some ErrEmailExists), s1)
        else if err \<noteq> Some ErrUserNotFound then ((None, err), s1)
        else case NewUser email name password now1 now2 of
               Inl e \<Rightarrow> ((None, Some e), s1)
             | Inr user \<Rightarrow>
                 (case Create repo user s1 of
                    ((Some e, user'), s2) \<Rightarrow> ((None, Some e), s2)
                  | ((None, user'), s2) \<Rightarrow> ((Some user', None), s2)))"

text \<open>
  \<^verbatim>\<open>internal/application/user/commands/create_user_command.go\<close>. \<^verbatim>\<open>len\<close> of a Go string
  counts bytes, as \<open>length\<close> of a \<open>string\<close> does.
\<close>

record CreateUserCommand =
  Cmd_Email :: string
  Cmd_Name :: string
  Cmd_Password :: string

definition validateCommand :: "CreateUserCommand \<Rightarrow> error option" where
  "validateCommand cmd =
     (if length (Cmd_Password cmd) < 8 then Some ErrInvalidPassword else None)"

definition CreateUserCommandHandler_Handle ::
  "'s UserRepository \<Rightarrow> CreateUserCommand \<Rightarrow> Time \<Rightarrow> Time \<Rightarrow> 's
     \<Rightarrow> (User option \<times> error option) \<times> 's" where
  "CreateUserCommandHandler_Handle repo cmd now1 now2 s =
     (case validateCommand cmd of
        Some e \<Rightarrow> ((None, Some e), s)
      | None \<Rightarrow>
         (case GetByEmail repo (Cmd_Email cmd) s of ((found, err), s1) \<Rightarrow>
            if err = None then ((None, Some ErrEmailExists), s1)
            else if err \<noteq> Some ErrUserNotFound then ((None, err), s1)
            else case NewUser (Cmd_Email cmd) (Cmd_Name cmd) (Cmd_Password cmd) now1 now2 of
                   Inl e \<Rightarrow> ((None, Some e), s1)
                 | Inr user \<Rightarrow>
                     (case Create repo user s1 of
                        ((Some e, user'), s2) \<Rightarrow> ((None, Some e), s2)
                      | ((None, user'), s2) \<Rightarrow> ((Some user', None), s2))))"

text \<open>\<^verbatim>\<open>internal/application/user/queries/get_user_query.go\<close>.\<close>

record GetUserQuery =
  Query_UserID :: nat

definition GetUserQueryHandler_Handle ::
  "'s UserRepository \<Rightarrow> GetUserQuery \<Rightarrow> 's \<Rightarrow> (User option \<times> error option) \<times> 's" where
  "GetUserQueryHandler_Handle repo query s =
     (if Query_UserID query = 0 then ((None, Some ErrInvalidEmail), s)
      else case GetByID repo (Query_UserID query) s of
             ((user, Some e), s1) \<Rightarrow> ((None, Some e), s1)
           | ((user, None), s1) \<Rightarrow> ((user, None), s1))"

text \<open>
  Two implementations of the interface to evaluate the use cases on. \<open>memRepo\<close> keeps
  the users in a list and counts the calls made to it: its store is the number of calls
  so far and the users. \<open>downRepo\<close> fails every call with an error that is not a domain
  error and counts the calls too.
\<close>

definition memRepo :: "(nat \<times> User list) UserRepository" where
  "memRepo =
     \<lparr>Create = (\<lambda>user (n, users).
         let user' = user\<lparr>User_ID := length users + 1\<rparr>
         in ((None, user'), (n + 1, users @ [user']))),
      GetByID = (\<lambda>i (n, users).
         ((case find (\<lambda>u. User_ID u = i) users of
             Some u \<Rightarrow> (Some u, None)
           | None \<Rightarrow> (None, Some ErrUserNotFound)), (n + 1, users))),
      GetByEmail = (\<lambda>email (n, users).
         ((case find (\<lambda>u. Email u = email) users of
             Some u \<Rightarrow> (Some u, None)
           | None \<Rightarrow> (None, Some ErrUserNotFound)), (n + 1, users)))\<rparr>"

definition downRepo :: "nat UserRepository" where
  "downRepo =
     \<lparr>Create = (\<lambda>user n. ((Some (ForeignError ''connection refused''), user), n + 1)),
      GetByID = (\<lambda>i n. ((None, Some (ForeignError ''connection refused'')), n + 1)),
      GetByEmail = (\<lambda>email n. ((None, Some (ForeignError ''connection refused'')), n + 1))\<rparr>"

definition alice :: User where
  "alice = \<lparr>User_ID = 1, Email = ''a@x.com'', Name = ''alice'', Password = ''secret123'',
            User_CreatedAt = 5, User_UpdatedAt = 5, User_DeletedAt = None\<rparr>"

definition bob :: User where
  "bob = \<lparr>User_ID = 2, Email = ''b@x.com'', Name = ''bob'', Password = ''hunter2hunter2'',
          User_CreatedAt = 7, User_UpdatedAt = 8, User_DeletedAt = None\<rparr>"

section \<open>Facts about the definitions\<close>

lemmas user_errors =
  ErrInvalidEmail_def ErrInvalidName_def ErrInvalidPassword_def ErrUserNotFound_def
  ErrEmailExists_def

lemmas order_statuses =
  OrderStatusPending_def OrderStatusConfirmed_def OrderStatusShipped_def
  OrderStatusDelivered_def OrderStatusCancelled_def

lemmas order_ops =
  NewOrder_def AddItem_def RemoveItem_def Confirm_def Ship_def Deliver_def Cancel_def
  calculateTotal_def sumItems_def exact_ops_def Let_def

lemmas samples = sampleItems_def sampleOrder_def

lemmas user_samples = memRepo_def downRepo_def alice_def

text \<open>The loop of \<^verbatim>\<open>RemoveItem\<close> runs to its end exactly when no item has the ID.\<close>

lemma findItem_None_iff:
  "findItem itemID xs i = None \<longleftrightarrow> (\<forall>it \<in> set xs. Item_ID it \<noteq> itemID)"
  by (induction xs arbitrary: i) auto

text \<open>Otherwise it stops at the first item that has it.\<close>

lemma findItem_Some:
  "findItem itemID xs i = Some j \<Longrightarrow>
     i \<le> j \<and> j - i < length xs \<and> Item_ID (xs ! (j - i)) = itemID
       \<and> (\<forall>k < j - i. Item_ID (xs ! k) \<noteq> itemID)"
proof (induction xs arbitrary: i)
  case Nil
  then show ?case by simp
next
  case (Cons x xs)
  show ?case
  proof (cases "Item_ID x = itemID")
    case True
    with Cons.prems show ?thesis by simp
  next
    case False
    with Cons.prems have rest: "findItem itemID xs (Suc i) = Some j" by simp
    from Cons.IH [OF rest]
    have ih: "Suc i \<le> j" "j - Suc i < length xs" "Item_ID (xs ! (j - Suc i)) = itemID"
      "\<forall>k < j - Suc i. Item_ID (xs ! k) \<noteq> itemID" by auto
    from ih(1) have eq: "j - i = Suc (j - Suc i)" by arith
    have "\<forall>k < j - i. Item_ID ((x # xs) ! k) \<noteq> itemID"
    proof (intro allI impI)
      fix k assume "k < j - i"
      then show "Item_ID ((x # xs) ! k) \<noteq> itemID"
        using False ih(4) eq by (cases k) auto
    qed
    then show ?thesis using ih eq by auto
  qed
qed

text \<open>
  In exact arithmetic the loop of \<^verbatim>\<open>calculateTotal\<close> computes the sum of
  \<open>price \<times> quantity\<close> over the items.
\<close>

lemma sumItems_exact:
  "sumItems exact_ops items = (\<Sum>item\<leftarrow>items. Price item * of_int (Quantity item))"
proof -
  have "foldl (\<lambda>total item. total + Price item * real_of_int (Quantity item)) a items
          = a + (\<Sum>item\<leftarrow>items. Price item * of_int (Quantity item))" for a
    by (induction items arbitrary: a) (simp_all add: add.assoc)
  then show ?thesis by (simp add: sumItems_def exact_ops_def)
qed

text \<open>Every call, failed or not, leaves the total in step with the items.\<close>

lemma perform_total:
  "TotalAmount ord = sumItems fl (Items ord) \<Longrightarrow>
     TotalAmount (snd (perform fl ord c)) = sumItems fl (Items (snd (perform fl ord c)))"
  by (cases c)
     (auto simp: AddItem_def RemoveItem_def Confirm_def Ship_def Deliver_def Cancel_def
        calculateTotal_def Let_def split: option.splits)

lemma performAll_total:
  "TotalAmount ord = sumItems fl (Items ord) \<Longrightarrow>
     TotalAmount (performAll fl ord cs) = sumItems fl (Items (performAll fl ord cs))"
  by (induction cs arbitrary: ord) (simp_all add: perform_total)

lemma NewOrder_total:
  "NewOrder fl userID items now1 now2 = Inr ord \<Longrightarrow> TotalAmount ord = sumItems fl (Items ord)"
  by (auto simp: NewOrder_def calculateTotal_def split: if_splits)

text \<open>No call moves an order out of the cancelled status.\<close>

lemma perform_cancelled:
  "Status ord = OrderStatusCancelled \<Longrightarrow> Status (snd (perform fl ord c)) = OrderStatusCancelled"
  by (cases c)
     (auto simp: AddItem_def RemoveItem_def Confirm_def Ship_def Deliver_def Cancel_def
        calculateTotal_def Let_def order_statuses split: option.splits)

lemma performAll_cancelled:
  "Status ord = OrderStatusCancelled \<Longrightarrow> Status (performAll fl ord cs) = OrderStatusCancelled"
  by (induction cs arbitrary: ord) (simp_all add: perform_cancelled)

text \<open>Successful \<^verbatim>\<open>AddItem\<close> calls append the items built from their arguments.\<close>

lemma addItems_Items:
  "addItems fl ord adds = Some ord' \<Longrightarrow>
     Items ord' = Items ord @
       map (\<lambda>(productID, quantity, price, now1, now2).
              \<lparr>Item_ID = 0, Item_OrderID = 0, ProductID = productID, Quantity = quantity,
               Price = price, Item_CreatedAt = now1\<rparr>) adds"
proof (induction adds arbitrary: ord)
  case Nil
  then show ?case by simp
next
  case (Cons a adds)
  obtain productID quantity price now1 now2 where a: "a = (productID, quantity, price, now1, now2)"
    by (cases a) auto
  obtain err ord1 where step: "AddItem fl ord productID quantity price now1 now2 = (err, ord1)"
    by (cases "AddItem fl ord productID quantity price now1 now2") auto
  from Cons.prems a step have err: "err = None" and rest: "addItems fl ord1 adds = Some ord'"
    by (auto split: option.splits)
  from step err have items1: "Items ord1 = Items ord @
      [\<lparr>Item_ID = 0, Item_OrderID = 0, ProductID = productID, Quantity = quantity,
        Price = price, Item_CreatedAt = now1\<rparr>]"
    by (auto simp: AddItem_def calculateTotal_def Let_def split: if_splits)
  from Cons.IH [OF rest] items1 a show ?case by simp
qed

section \<open>Status transitions\<close>

text \<open>
  C1. For every order, \<^verbatim>\<open>Confirm()\<close> succeeds exactly when the status is pending and then
  sets it to confirmed; \<^verbatim>\<open>Ship()\<close> succeeds exactly when the status is confirmed and then
  sets it to shipped; \<^verbatim>\<open>Deliver()\<close> succeeds exactly when the status is shipped and then
  sets it to delivered. In every other case the call returns
  \<^verbatim>\<open>ErrInvalidOrderStatusTransition\<close> and the order, its status included, is as it was.
\<close>

theorem C1_status_transitions:
  fixes ord :: "'f Order"
  shows "(fst (Confirm ord now) = None \<longleftrightarrow> Status ord = OrderStatusPending)
       \<and> (Status ord = OrderStatusPending \<longrightarrow>
            Status (snd (Confirm ord now)) = OrderStatusConfirmed)
       \<and> (Status ord \<noteq> OrderStatusPending \<longrightarrow>
            Confirm ord now = (Some ErrInvalidOrderStatusTransition, ord))
       \<and> (fst (Ship ord now) = None \<longleftrightarrow> Status ord = OrderStatusConfirmed)
       \<and> (Status ord = OrderStatusConfirmed \<longrightarrow>
            Status (snd (Ship ord now)) = OrderStatusShipped)
       \<and> (Status ord \<noteq> OrderStatusConfirmed \<longrightarrow>
            Ship ord now = (Some ErrInvalidOrderStatusTransition, ord))
       \<and> (fst (Deliver ord now) = None \<longleftrightarrow> Status ord = OrderStatusShipped)
       \<and> (Status ord = OrderStatusShipped \<longrightarrow>
            Status (snd (Deliver ord now)) = OrderStatusDelivered)
       \<and> (Status ord \<noteq> OrderStatusShipped \<longrightarrow>
            Deliver ord now = (Some ErrInvalidOrderStatusTransition, ord))"
  by (simp add: Confirm_def Ship_def Deliver_def)

text \<open>
  On a pending order \<^verbatim>\<open>Confirm()\<close> succeeds, and \<^verbatim>\<open>Ship()\<close> and \<^verbatim>\<open>Deliver()\<close> fail and
  leave it as it is; on a confirmed one \<^verbatim>\<open>Ship()\<close> succeeds, on a shipped one
  \<^verbatim>\<open>Deliver()\<close>.
\<close>

theorem C1_status_transitions_witness:
  "Status (sampleOrder OrderStatusPending) = OrderStatusPending
   \<and> fst (Confirm (sampleOrder OrderStatusPending) 200) = None
   \<and> Status (snd (Confirm (sampleOrder OrderStatusPending) 200)) = OrderStatusConfirmed
   \<and> Status (sampleOrder OrderStatusPending) \<noteq> OrderStatusConfirmed
   \<and> Ship (sampleOrder OrderStatusPending) 200
        = (Some ErrInvalidOrderStatusTransition, sampleOrder OrderStatusPending)
   \<and> Status (sampleOrder OrderStatusPending) \<noteq> OrderStatusShipped
   \<and> Deliver (sampleOrder OrderStatusPending) 200
        = (Some ErrInvalidOrderStatusTransition, sampleOrder OrderStatusPending)
   \<and> Status (snd (Ship (sampleOrder OrderStatusConfirmed) 200)) = OrderStatusShipped
   \<and> Status (snd (Deliver (sampleOrder OrderStatusShipped) 200)) = OrderStatusDelivered"
  using C1_status_transitions [of "sampleOrder OrderStatusPending" 200]
    C1_status_transitions [of "sampleOrder OrderStatusConfirmed" 200]
    C1_status_transitions [of "sampleOrder OrderStatusShipped" 200]
  by (simp add: samples order_statuses)

section \<open>The total amount\<close>

text \<open>
  C2. For every order obtained from a successful \<^verbatim>\<open>NewOrder\<close> and taken through any
  sequence of \<^verbatim>\<open>AddItem\<close>, \<^verbatim>\<open>RemoveItem\<close>, \<^verbatim>\<open>Confirm\<close>, \<^verbatim>\<open>Ship\<close>, \<^verbatim>\<open>Deliver\<close> and
  \<^verbatim>\<open>Cancel\<close> calls, failed or not, \<^verbatim>\<open>TotalAmount\<close> is the sum over the current items of
  price times quantity, as the loop of \<^verbatim>\<open>calculateTotal\<close> computes it: from \<^verbatim>\<open>0.0\<close>,
  item by item in the order of the list. The sequence \<open>cs\<close> is any sequence, so the
  equation holds after every call of a longer one. It holds whatever the arithmetic of
  \<^verbatim>\<open>float64\<close> does (\<open>fl\<close> is any); in exact arithmetic the loop's result is the
  mathematical sum (\<open>sumItems_exact\<close>).
\<close>

theorem C2_total_amount_invariant:
  "NewOrder fl userID items now1 now2 = Inr ord \<Longrightarrow>
     TotalAmount (performAll fl ord cs) = sumItems fl (Items (performAll fl ord cs))"
  by (rule performAll_total) (rule NewOrder_total)

text \<open>
  The order for user 42 with items of 2 at 10 and 1 at 5, then: add 4 at 2 (total 33),
  remove item 1 (13), a failing \<^verbatim>\<open>Ship\<close>, a failing \<^verbatim>\<open>RemoveItem\<close>, \<^verbatim>\<open>Confirm\<close>, a failing
  \<^verbatim>\<open>AddItem\<close>, \<^verbatim>\<open>Cancel\<close>.
\<close>

theorem C2_total_amount_invariant_witness:
  "NewOrder exact_ops 42 sampleItems 100 100 = Inr (sampleOrder OrderStatusPending)
   \<and> TotalAmount (performAll exact_ops (sampleOrder OrderStatusPending) sampleCalls)
       = sumItems exact_ops (Items (performAll exact_ops (sampleOrder OrderStatusPending) sampleCalls))
   \<and> TotalAmount (performAll exact_ops (sampleOrder OrderStatusPending) sampleCalls) = 13"
proof -
  have new: "NewOrder exact_ops 42 sampleItems 100 100 = Inr (sampleOrder OrderStatusPending)"
    by (simp add: order_ops samples order_statuses)
  have run: "sumItems exact_ops (Items (performAll exact_ops (sampleOrder OrderStatusPending) sampleCalls)) = 13"
    by (simp add: order_ops samples sampleCalls_def order_statuses)
  from C2_total_amount_invariant [OF new, of sampleCalls] new run show ?thesis by simp
qed

section \<open>Cancellation\<close>

text \<open>
  C3, as amended. For every order whose status is cancelled, \<^verbatim>\<open>Confirm()\<close>, \<^verbatim>\<open>Ship()\<close> and
  \<^verbatim>\<open>Deliver()\<close> return \<^verbatim>\<open>ErrInvalidOrderStatusTransition\<close> and leave the order as it is;
  \<^verbatim>\<open>Cancel()\<close> returns no error, and leaves the order as it was but for \<^verbatim>\<open>UpdatedAt\<close>,
  which holds the new clock reading. The status stays cancelled under every sequence of
  calls: the cancelled status is terminal.
\<close>

theorem C3_cancelled_terminal:
  fixes ord :: "'f Order"
  assumes "Status ord = OrderStatusCancelled"
  shows "Confirm ord now = (Some ErrInvalidOrderStatusTransition, ord)
       \<and> Ship ord now = (Some ErrInvalidOrderStatusTransition, ord)
       \<and> Deliver ord now = (Some ErrInvalidOrderStatusTransition, ord)
       \<and> Cancel ord now = (None, ord\<lparr>UpdatedAt := now\<rparr>)
       \<and> Status (performAll fl ord cs) = OrderStatusCancelled"
proof -
  have "ord\<lparr>Status := OrderStatusCancelled, UpdatedAt := now\<rparr> = ord\<lparr>UpdatedAt := now\<rparr>"
    using assms by simp
  then have "Cancel ord now = (None, ord\<lparr>UpdatedAt := now\<rparr>)"
    using assms by (simp add: Cancel_def order_statuses)
  then show ?thesis
    using assms performAll_cancelled [OF assms]
    by (simp add: Confirm_def Ship_def Deliver_def order_statuses)
qed

theorem C3_cancelled_terminal_witness:
  "Status (sampleOrder OrderStatusCancelled) = OrderStatusCancelled
   \<and> Confirm (sampleOrder OrderStatusCancelled) 200
       = (Some ErrInvalidOrderStatusTransition, sampleOrder OrderStatusCancelled)
   \<and> Cancel (sampleOrder OrderStatusCancelled) 200
       = (None, (sampleOrder OrderStatusCancelled)\<lparr>UpdatedAt := 200\<rparr>)
   \<and> Status (performAll exact_ops (sampleOrder OrderStatusCancelled) sampleCalls)
       = OrderStatusCancelled"
proof -
  have st: "Status (sampleOrder OrderStatusCancelled) = OrderStatusCancelled"
    by (simp add: samples)
  from C3_cancelled_terminal [OF st, of 200 exact_ops sampleCalls] st show ?thesis by simp
qed

text \<open>
  As first stated the claim has \<^verbatim>\<open>Cancel()\<close> return an error on a cancelled order. Its one
  guard is the test for delivered, so on the cancelled sample order it returns \<^verbatim>\<open>nil\<close>.
\<close>

theorem C3_cancelled_counterexample:
  "Status (sampleOrder OrderStatusCancelled) = OrderStatusCancelled
   \<and> fst (Cancel (sampleOrder OrderStatusCancelled) 200) = None"
  by (simp add: Cancel_def samples order_statuses)

text \<open>
  C5. \<^verbatim>\<open>Cancel()\<close> returns \<^verbatim>\<open>ErrCannotCancelDeliveredOrder\<close> exactly when the status is
  delivered, and then leaves the order, its status included, as it is; when the status
  is pending, confirmed or shipped it succeeds and sets the status to cancelled.
\<close>

theorem C5_cancel:
  fixes ord :: "'f Order"
  shows "(fst (Cancel ord now) = Some ErrCannotCancelDeliveredOrder
            \<longleftrightarrow> Status ord = OrderStatusDelivered)
       \<and> (Status ord = OrderStatusDelivered \<longrightarrow>
            Cancel ord now = (Some ErrCannotCancelDeliveredOrder, ord))
       \<and> (Status ord = OrderStatusPending \<or> Status ord = OrderStatusConfirmed
            \<or> Status ord = OrderStatusShipped \<longrightarrow>
            fst (Cancel ord now) = None
            \<and> Status (snd (Cancel ord now)) = OrderStatusCancelled)"
  by (auto simp: Cancel_def order_statuses)

theorem C5_cancel_witness:
  "Status (sampleOrder OrderStatusDelivered) = OrderStatusDelivered
   \<and> Cancel (sampleOrder OrderStatusDelivered) 200
       = (Some ErrCannotCancelDeliveredOrder, sampleOrder OrderStatusDelivered)
   \<and> Status (sampleOrder OrderStatusShipped) = OrderStatusShipped
   \<and> fst (Cancel (sampleOrder OrderStatusShipped) 200) = None
   \<and> Status (snd (Cancel (sampleOrder OrderStatusShipped) 200)) = OrderStatusCancelled
   \<and> fst (Cancel (sampleOrder OrderStatusPending) 200) = None
   \<and> Status (snd (Cancel (sampleOrder OrderStatusPending) 200)) = OrderStatusCancelled"
  using C5_cancel [of "sampleOrder OrderStatusDelivered" 200]
    C5_cancel [of "sampleOrder OrderStatusShipped" 200]
    C5_cancel [of "sampleOrder OrderStatusPending" 200]
  by (simp add: samples)

section \<open>Construction\<close>

text \<open>
  C4. \<^verbatim>\<open>NewOrder(userID, items)\<close> returns \<^verbatim>\<open>ErrInvalidUserID\<close> whenever \<^verbatim>\<open>userID\<close> is zero,
  whatever the items; \<^verbatim>\<open>ErrEmptyOrder\<close> whenever \<^verbatim>\<open>userID\<close> is not zero and there are no
  items; and otherwise an order with status pending, the given user and items, and
  \<^verbatim>\<open>TotalAmount\<close> the sum of price times quantity over the given items.
\<close>

theorem C4_new_order:
  "(userID = 0 \<longrightarrow> NewOrder fl userID items now1 now2 = Inl ErrInvalidUserID)
   \<and> (userID \<noteq> 0 \<and> items = [] \<longrightarrow> NewOrder fl userID items now1 now2 = Inl ErrEmptyOrder)
   \<and> (userID \<noteq> 0 \<and> items \<noteq> [] \<longrightarrow>
        (\<exists>ord. NewOrder fl userID items now1 now2 = Inr ord
           \<and> Status ord = OrderStatusPending \<and> UserID ord = userID \<and> Items ord = items
           \<and> TotalAmount ord = sumItems fl items))"
  by (simp add: NewOrder_def calculateTotal_def)

theorem C4_new_order_witness:
  "NewOrder exact_ops 0 sampleItems 100 100 = Inl ErrInvalidUserID
   \<and> NewOrder exact_ops 42 [] 100 100 = Inl ErrEmptyOrder
   \<and> (42::nat) \<noteq> 0 \<and> sampleItems \<noteq> []
   \<and> (\<exists>ord. NewOrder exact_ops 42 sampleItems 100 100 = Inr ord
          \<and> Status ord = OrderStatusPending \<and> UserID ord = 42 \<and> Items ord = sampleItems
          \<and> TotalAmount ord = sumItems exact_ops sampleItems)
   \<and> sumItems exact_ops sampleItems = 25"
  using C4_new_order [of 0 exact_ops sampleItems 100 100]
    C4_new_order [of 42 exact_ops "[]" 100 100]
    C4_new_order [of 42 exact_ops sampleItems 100 100]
  by (simp add: sampleItems_def sumItems_def exact_ops_def)

section \<open>Items\<close>

text \<open>
  C6. For every order whose status is not pending, \<^verbatim>\<open>AddItem\<close> and \<^verbatim>\<open>RemoveItem\<close> return
  \<^verbatim>\<open>ErrOrderNotModifiable\<close> and leave the order as it is. For a pending order,
  \<^verbatim>\<open>RemoveItem(itemID)\<close> returns \<^verbatim>\<open>ErrOrderItemNotFound\<close> when no item has the given ID,
  and the order (its items, \<^verbatim>\<open>TotalAmount\<close> and \<^verbatim>\<open>UpdatedAt\<close> among its fields) is as it
  was. On success \<^verbatim>\<open>AddItem\<close> appends the new item and \<^verbatim>\<open>RemoveItem\<close> takes out the first
  item with the given ID, and both leave \<^verbatim>\<open>TotalAmount\<close> recomputed over the new items
  and \<^verbatim>\<open>UpdatedAt\<close> at the new clock reading.
\<close>

theorem C6_item_mutation:
  fixes ord :: "'f Order"
  shows "(Status ord \<noteq> OrderStatusPending \<longrightarrow>
            AddItem fl ord productID quantity price now1 now2 = (Some ErrOrderNotModifiable, ord)
            \<and> RemoveItem fl ord itemID now = (Some ErrOrderNotModifiable, ord))
       \<and> (Status ord = OrderStatusPending
            \<and> (\<forall>item \<in> set (Items ord). Item_ID item \<noteq> itemID) \<longrightarrow>
            RemoveItem fl ord itemID now = (Some ErrOrderItemNotFound, ord))
       \<and> (Status ord = OrderStatusPending \<longrightarrow>
            (\<exists>ord'. AddItem fl ord productID quantity price now1 now2 = (None, ord')
               \<and> Items ord' = Items ord @
                    [\<lparr>Item_ID = 0, Item_OrderID = 0, ProductID = productID,
                      Quantity = quantity, Price = price, Item_CreatedAt = now1\<rparr>]
               \<and> TotalAmount ord' = sumItems fl (Items ord')
               \<and> UpdatedAt ord' = now2))
       \<and> (Status ord = OrderStatusPending
            \<and> (\<exists>item \<in> set (Items ord). Item_ID item = itemID) \<longrightarrow>
            (\<exists>ord' i. RemoveItem fl ord itemID now = (None, ord')
               \<and> i < length (Items ord) \<and> Item_ID (Items ord ! i) = itemID
               \<and> (\<forall>k < i. Item_ID (Items ord ! k) \<noteq> itemID)
               \<and> Items ord' = take i (Items ord) @ drop (Suc i) (Items ord)
               \<and> TotalAmount ord' = sumItems fl (Items ord')
               \<and> UpdatedAt ord' = now))"
proof (intro conjI impI)
  assume "Status ord \<noteq> OrderStatusPending"
  then show "AddItem fl ord productID quantity price now1 now2 = (Some ErrOrderNotModifiable, ord)"
    and "RemoveItem fl ord itemID now = (Some ErrOrderNotModifiable, ord)"
    by (simp_all add: AddItem_def RemoveItem_def)
next
  assume "Status ord = OrderStatusPending \<and> (\<forall>item \<in> set (Items ord). Item_ID item \<noteq> itemID)"
  then show "RemoveItem fl ord itemID now = (Some ErrOrderItemNotFound, ord)"
    using findItem_None_iff [of itemID "Items ord" 0] by (simp add: RemoveItem_def)
next
  assume "Status ord = OrderStatusPending"
  then show "\<exists>ord'. AddItem fl ord productID quantity price now1 now2 = (None, ord')
               \<and> Items ord' = Items ord @
                    [\<lparr>Item_ID = 0, Item_OrderID = 0, ProductID = productID,
                      Quantity = quantity, Price = price, Item_CreatedAt = now1\<rparr>]
               \<and> TotalAmount ord' = sumItems fl (Items ord')
               \<and> UpdatedAt ord' = now2"
    by (simp add: AddItem_def calculateTotal_def Let_def)
next
  assume a: "Status ord = OrderStatusPending \<and> (\<exists>item \<in> set (Items ord). Item_ID item = itemID)"
  then have "findItem itemID (Items ord) 0 \<noteq> None"
    using findItem_None_iff [of itemID "Items ord" 0] by blast
  then obtain i where i: "findItem itemID (Items ord) 0 = Some i" by blast
  from findItem_Some [OF i]
  have props: "i < length (Items ord)" "Item_ID (Items ord ! i) = itemID"
    "\<forall>k < i. Item_ID (Items ord ! k) \<noteq> itemID" by simp_all
  let ?ord' = "ord\<lparr>Items := take i (Items ord) @ drop (Suc i) (Items ord),
                   TotalAmount := sumItems fl (take i (Items ord) @ drop (Suc i) (Items ord)),
                   UpdatedAt := now\<rparr>"
  have "RemoveItem fl ord itemID now = (None, ?ord')"
    using a i by (simp add: RemoveItem_def calculateTotal_def Let_def)
  then show "\<exists>ord' i. RemoveItem fl ord itemID now = (None, ord')
               \<and> i < length (Items ord) \<and> Item_ID (Items ord ! i) = itemID
               \<and> (\<forall>k < i. Item_ID (Items ord ! k) \<noteq> itemID)
               \<and> Items ord' = take i (Items ord) @ drop (Suc i) (Items ord)
               \<and> TotalAmount ord' = sumItems fl (Items ord')
               \<and> UpdatedAt ord' = now"
    using props by (intro exI [of _ ?ord'] exI [of _ i]) simp
qed

theorem C6_item_mutation_witness:
  "Status (sampleOrder OrderStatusShipped) \<noteq> OrderStatusPending
   \<and> AddItem exact_ops (sampleOrder OrderStatusShipped) 3 4 2 105 106
       = (Some ErrOrderNotModifiable, sampleOrder OrderStatusShipped)
   \<and> RemoveItem exact_ops (sampleOrder OrderStatusShipped) 1 110
       = (Some ErrOrderNotModifiable, sampleOrder OrderStatusShipped)
   \<and> Status (sampleOrder OrderStatusPending) = OrderStatusPending
   \<and> map Item_ID (Items (sampleOrder OrderStatusPending)) = [1, 2]
   \<and> RemoveItem exact_ops (sampleOrder OrderStatusPending) 77 110
       = (Some ErrOrderItemNotFound, sampleOrder OrderStatusPending)
   \<and> fst (RemoveItem exact_ops (sampleOrder OrderStatusPending) 1 110) = None
   \<and> map Item_ID (Items (snd (RemoveItem exact_ops (sampleOrder OrderStatusPending) 1 110))) = [2]
   \<and> TotalAmount (snd (RemoveItem exact_ops (sampleOrder OrderStatusPending) 1 110)) = 5
   \<and> UpdatedAt (snd (RemoveItem exact_ops (sampleOrder OrderStatusPending) 1 110)) = 110
   \<and> fst (AddItem exact_ops (sampleOrder OrderStatusPending) 3 4 2 105 106) = None
   \<and> TotalAmount (snd (AddItem exact_ops (sampleOrder OrderStatusPending) 3 4 2 105 106)) = 33
   \<and> UpdatedAt (snd (AddItem exact_ops (sampleOrder OrderStatusPending) 3 4 2 105 106)) = 106"
  using C6_item_mutation [of "sampleOrder OrderStatusShipped" exact_ops 3 4 2 105 106 1 110]
    C6_item_mutation [of "sampleOrder OrderStatusPending" exact_ops 3 4 2 105 106 77 110]
    C6_item_mutation [of "sampleOrder OrderStatusPending" exact_ops 3 4 2 105 106 1 110]
  by (simp add: order_ops samples order_statuses)

text \<open>
  C7, as amended. Neither \<^verbatim>\<open>NewOrder\<close> nor \<^verbatim>\<open>AddItem\<close> checks a quantity or a price: they
  store what they are given. So for an order obtained from \<^verbatim>\<open>NewOrder\<close> and a run of
  successful \<^verbatim>\<open>AddItem\<close> calls, every item has \<open>quantity > 0\<close> and \<open>price \<ge> 0\<close> exactly
  when every item handed to \<^verbatim>\<open>NewOrder\<close> and every quantity and price handed to
  \<^verbatim>\<open>AddItem\<close> has.
\<close>

theorem C7_item_bounds_amended:
  assumes "NewOrder fl userID items now1 now2 = Inr ord"
    and "addItems fl ord adds = Some ord'"
  shows "list_all (itemValid fl) (Items ord') \<longleftrightarrow>
           list_all (itemValid fl) items
           \<and> list_all (\<lambda>(productID, quantity, price, t1, t2).
                0 < quantity \<and> f_le fl (f_zero fl) price) adds"
proof -
  from assms(1) have "Items ord = items"
    by (auto simp: NewOrder_def calculateTotal_def split: if_splits)
  with addItems_Items [OF assms(2)] show ?thesis
    by (simp add: list.pred_map comp_def itemValid_def case_prod_unfold)
qed

theorem C7_item_bounds_amended_witness:
  "NewOrder exact_ops 42 sampleItems 100 100 = Inr (sampleOrder OrderStatusPending)
   \<and> addItems exact_ops (sampleOrder OrderStatusPending) [(3, 4, 2, 105, 106)]
       = Some (snd (AddItem exact_ops (sampleOrder OrderStatusPending) 3 4 2 105 106))
   \<and> list_all (itemValid exact_ops) sampleItems
   \<and> list_all (itemValid exact_ops)
        (Items (snd (AddItem exact_ops (sampleOrder OrderStatusPending) 3 4 2 105 106)))"
proof -
  have new: "NewOrder exact_ops 42 sampleItems 100 100 = Inr (sampleOrder OrderStatusPending)"
    by (simp add: order_ops samples order_statuses)
  have adds: "addItems exact_ops (sampleOrder OrderStatusPending) [(3, 4, 2, 105, 106)]
       = Some (snd (AddItem exact_ops (sampleOrder OrderStatusPending) 3 4 2 105 106))"
    by (simp add: order_ops samples order_statuses)
  have valid: "list_all (itemValid exact_ops) sampleItems"
    by (simp add: itemValid_def exact_ops_def sampleItems_def)
  from C7_item_bounds_amended [OF new adds] new adds valid show ?thesis
    by (simp add: exact_ops_def)
qed

text \<open>
  As first stated the claim gives the bounds to every item of every such order. On the
  sample order \<^verbatim>\<open>AddItem(3, -1, -2.0)\<close> succeeds, and the order then holds an item of
  quantity \<open>-1\<close> and price \<open>-2\<close>.
\<close>

theorem C7_item_bounds_counterexample:
  "NewOrder exact_ops 42 sampleItems 100 100 = Inr (sampleOrder OrderStatusPending)
   \<and> fst (AddItem exact_ops (sampleOrder OrderStatusPending) 3 (- 1) (- 2) 105 106) = None
   \<and> \<not> list_all (itemValid exact_ops)
          (Items (snd (AddItem exact_ops (sampleOrder OrderStatusPending) 3 (- 1) (- 2) 105 106)))"
  by (simp add: order_ops samples order_statuses itemValid_def)

section \<open>Creating and fetching users\<close>

text \<open>
  C8. Both ways of creating a user, the use case's \<^verbatim>\<open>CreateUser\<close> and the command
  handler's \<^verbatim>\<open>Handle\<close>, look the email up before they create. Each reaches the lookup
  once its own check of the input has passed (no empty field for \<^verbatim>\<open>CreateUser\<close>, a
  password of eight bytes or more for \<^verbatim>\<open>Handle\<close>), and from there, whatever \<^verbatim>\<open>GetByEmail\<close>
  answers for the email: if it succeeds, creation fails with \<^verbatim>\<open>ErrEmailExists\<close>; if it
  fails with \<^verbatim>\<open>ErrUserNotFound\<close>, creation goes on to \<^verbatim>\<open>NewUser\<close> and, with the user it
  returns, to the repository's \<^verbatim>\<open>Create\<close>, whose error or user is the result; if it fails
  with any other error, that error is returned as it is. The store is left as the last
  repository call left it.
\<close>

theorem C8_lookup_before_create:
  assumes "GetByEmail repo email s = ((found, err), s1)"
  shows "(email \<noteq> '''' \<and> name \<noteq> '''' \<and> password \<noteq> '''' \<longrightarrow>
           (err = None \<longrightarrow>
              CreateUser repo email name password now1 now2 s = ((None, Some ErrEmailExists), s1))
         \<and> (err = Some ErrUserNotFound \<longrightarrow>
              (\<exists>user. NewUser email name password now1 now2 = Inr user
                 \<and> CreateUser repo email name password now1 now2 s =
                     (let r = Create repo user s1
                      in if fst (fst r) = None then ((Some (snd (fst r)), None), snd r)
                         else ((None, fst (fst r)), snd r))))
         \<and> (\<forall>e. err = Some e \<and> e \<noteq> ErrUserNotFound \<longrightarrow>
              CreateUser repo email name password now1 now2 s = ((None, Some e), s1)))
       \<and> (8 \<le> length password \<longrightarrow>
           (err = None \<longrightarrow>
              CreateUserCommandHandler_Handle repo
                \<lparr>Cmd_Email = email, Cmd_Name = name, Cmd_Password = password\<rparr> now1 now2 s
                = ((None, Some ErrEmailExists), s1))
         \<and> (err = Some ErrUserNotFound \<longrightarrow>
              CreateUserCommandHandler_Handle repo
                \<lparr>Cmd_Email = email, Cmd_Name = name, Cmd_Password = password\<rparr> now1 now2 s
                = (case NewUser email name password now1 now2 of
                     Inl e \<Rightarrow> ((None, Some e), s1)
                   | Inr user \<Rightarrow>
                       (let r = Create repo user s1
                        in if fst (fst r) = None then ((Some (snd (fst r)), None), snd r)
                           else ((None, fst (fst r)), snd r))))
         \<and> (\<forall>e. err = Some e \<and> e \<noteq> ErrUserNotFound \<longrightarrow>
              CreateUserCommandHandler_Handle repo
                \<lparr>Cmd_Email = email, Cmd_Name = name, Cmd_Password = password\<rparr> now1 now2 s
                = ((None, Some e), s1)))"
proof -
  have persist: "(case Create repo user s1 of
            ((Some e, user'), s2) \<Rightarrow> ((None, Some e), s2)
          | ((None, user'), s2) \<Rightarrow> ((Some user', None), s2))
        = (let r = Create repo user s1
           in if fst (fst r) = None then ((Some (snd (fst r)), None), snd r)
              else ((None, fst (fst r)), snd r))" for user
    by (cases "Create repo user s1") (auto split: option.splits)
  show ?thesis
    using assms
    by (auto simp: CreateUser_def CreateUserCommandHandler_Handle_def validateCommand_def
          NewUser_def persist split: sum.splits)
qed

text \<open>
  A repository holding alice: her email is taken; bob's is free and he is created with
  the next ID. A repository that is down: its error comes back as it is.
\<close>

theorem C8_lookup_before_create_witness:
  "GetByEmail memRepo ''a@x.com'' (0, [alice]) = ((Some alice, None), (1, [alice]))
   \<and> CreateUser memRepo ''a@x.com'' ''al'' ''hunter2hunter2'' 7 8 (0, [alice])
       = ((None, Some ErrEmailExists), (1, [alice]))
   \<and> CreateUserCommandHandler_Handle memRepo
        \<lparr>Cmd_Email = ''a@x.com'', Cmd_Name = ''al'', Cmd_Password = ''hunter2hunter2''\<rparr>
        7 8 (0, [alice])
       = ((None, Some ErrEmailExists), (1, [alice]))
   \<and> GetByEmail memRepo ''b@x.com'' (0, [alice]) = ((None, Some ErrUserNotFound), (1, [alice]))
   \<and> CreateUser memRepo ''b@x.com'' ''bob'' ''hunter2hunter2'' 7 8 (0, [alice])
       = ((Some bob, None), (2, [alice, bob]))
   \<and> CreateUserCommandHandler_Handle memRepo
        \<lparr>Cmd_Email = ''b@x.com'', Cmd_Name = ''bob'', Cmd_Password = ''hunter2hunter2''\<rparr>
        7 8 (0, [alice])
       = ((Some bob, None), (2, [alice, bob]))
   \<and> GetByEmail downRepo ''b@x.com'' 0 = ((None, Some (ForeignError ''connection refused'')), 1)
   \<and> CreateUser downRepo ''b@x.com'' ''bob'' ''hunter2hunter2'' 7 8 0
       = ((None, Some (ForeignError ''connection refused'')), 1)
   \<and> CreateUserCommandHandler_Handle downRepo
        \<lparr>Cmd_Email = ''b@x.com'', Cmd_Name = ''bob'', Cmd_Password = ''hunter2hunter2''\<rparr> 7 8 0
       = ((None, Some (ForeignError ''connection refused'')), 1)"
proof -
  have found: "GetByEmail memRepo ''a@x.com'' (0, [alice]) = ((Some alice, None), (1, [alice]))"
    by (simp add: user_samples)
  have missing:
    "GetByEmail memRepo ''b@x.com'' (0, [alice]) = ((None, Some ErrUserNotFound), (1, [alice]))"
    by (simp add: user_samples)
  have down:
    "GetByEmail downRepo ''b@x.com'' 0 = ((None, Some (ForeignError ''connection refused'')), 1)"
    by (simp add: user_samples)
  from C8_lookup_before_create [OF found, of "''al''" "''hunter2hunter2''" 7 8]
    C8_lookup_before_create [OF missing, of "''bob''" "''hunter2hunter2''" 7 8]
    C8_lookup_before_create [OF down, of "''bob''" "''hunter2hunter2''" 7 8]
    found missing down
  show ?thesis
    by (simp add: user_samples bob_def NewUser_def user_errors Let_def)
qed

text \<open>
  C9. The claim: for a call of \<^verbatim>\<open>CreateUser\<close> with an email that is not empty and not
  registered, an empty name yields \<^verbatim>\<open>ErrInvalidName\<close> and an empty password
  \<^verbatim>\<open>ErrInvalidPassword\<close>, the errors \<^verbatim>\<open>NewUser\<close> returns for these inputs. The code: the
  first statement of \<^verbatim>\<open>CreateUser\<close> returns \<^verbatim>\<open>ErrInvalidEmail\<close> when any of the three
  fields is empty, before the repository or \<^verbatim>\<open>NewUser\<close> is reached, whatever the
  repository and its store are. What the code computes at these inputs:
\<close>

theorem C9_create_user_masks_entity_errors:
  "CreateUser repo ''e@x.com'' '''' ''p'' now1 now2 s = ((None, Some ErrInvalidEmail), s)
   \<and> NewUser ''e@x.com'' '''' ''p'' now1 now2 = Inl ErrInvalidName
   \<and> CreateUser repo ''e@x.com'' ''n'' '''' now1 now2 s = ((None, Some ErrInvalidEmail), s)
   \<and> NewUser ''e@x.com'' ''n'' '''' now1 now2 = Inl ErrInvalidPassword
   \<and> ErrInvalidEmail \<noteq> ErrInvalidName \<and> ErrInvalidEmail \<noteq> ErrInvalidPassword"
  by (simp add: CreateUser_def NewUser_def user_errors)

text \<open>
  C10. For every \<^verbatim>\<open>GetUserQuery\<close> whose \<^verbatim>\<open>UserID\<close> is 0, \<^verbatim>\<open>GetUserQueryHandler.Handle\<close>
  returns \<^verbatim>\<open>ErrInvalidEmail\<close>, the sentinel for a missing email, and does not consult the
  repository: the result is the same for every repository, and the store is the one the
  call was given, whatever the repository's methods would have done to it.
\<close>

theorem C10_get_user_zero_id:
  "Query_UserID query = 0 \<Longrightarrow>
     GetUserQueryHandler_Handle repo query s = ((None, Some ErrInvalidEmail), s)"
  by (simp add: GetUserQueryHandler_Handle_def)

text \<open>
  Both sample repositories count the calls made to them, and the count stays at 0; a
  query for ID 1 does reach the repository.
\<close>

theorem C10_get_user_zero_id_witness:
  "Query_UserID \<lparr>Query_UserID = 0\<rparr> = 0
   \<and> GetUserQueryHandler_Handle memRepo \<lparr>Query_UserID = 0\<rparr> (0, [alice])
       = ((None, Some ErrInvalidEmail), (0, [alice]))
   \<and> GetUserQueryHandler_Handle downRepo \<lparr>Query_UserID = 0\<rparr> 0
       = ((None, Some ErrInvalidEmail), 0)
   \<and> GetUserQueryHandler_Handle memRepo \<lparr>Query_UserID = 1\<rparr> (0, [alice])
       = ((Some alice, None), (1, [alice]))
   \<and> ErrInvalidEmail = DomainError ''email is required''"
proof -
  have zero: "Query_UserID \<lparr>Query_UserID = 0\<rparr> = 0" by simp
  from C10_get_user_zero_id [OF zero, of memRepo "(0, [alice])"]
    C10_get_user_zero_id [OF zero, of downRepo 0]
  show ?thesis
    by (simp add: GetUserQueryHandler_Handle_def user_samples user_errors)
qed

end
